theory Spec2Isabelle
  imports Complex_Main "HOL-Library.Sublist" "HOL-Library.Multiset"
begin

section \<open>Python values and exceptions\<close>

text \<open>
  The scripts are Python. Every exception the modelled code can raise is a value of
  \<open>exn\<close>; a function that may raise returns \<open>exn + 'a\<close>, with \<open>Inl\<close> for the exception.
\<close>

datatype exit_arg = ExitCode int | ExitMsg string

datatype exn =
    IndexError
  | KeyError string
  | TypeError
  | ValueError
  | AttributeError
  | UnboundLocalError
  | RuntimeError
  | PadError
  | SystemExit exit_arg

text \<open>Python's \<open>s.endswith(suf)\<close>.\<close>

definition endswith :: "string \<Rightarrow> string \<Rightarrow> bool" where
  "endswith s suf = (length suf \<le> length s \<and> drop (length s - length suf) s = suf)"

text \<open>Python's \<open>d[k]\<close> on a dict: a missing key raises KeyError.\<close>

definition getitem :: "(string \<rightharpoonup> 'v) \<Rightarrow> string \<Rightarrow> exn + 'v" where
  "getitem d k = (case d k of None \<Rightarrow> Inl (KeyError k) | Some v \<Rightarrow> Inr v)"

section \<open>run\_classifier.py: argument parsing\<close>

text \<open>
  Lines 114-120 of \<open>main\<close>. \<open>abspath\<close> is \<open>os.path.abspath\<close> and \<open>parse_json_file\<close> is
  the parser's method of the same name; both belong to libraries and are parameters.
  \<open>exit(1)\<close> raises \<open>SystemExit(1)\<close>. The test \<open>len(sys.argv) == 2\<close> comes first, so
  \<open>sys.argv[1]\<close> is read only on a two-element vector.
\<close>

definition main_parse_args ::
  "(string \<Rightarrow> string) \<Rightarrow> (string \<Rightarrow> exn + 'args) \<Rightarrow> string list \<Rightarrow> exn + 'args" where
  "main_parse_args abspath parse_json_file argv =
     (case argv of
        [prog, a] \<Rightarrow>
          if endswith a ''.json'' then parse_json_file (abspath a)
          else Inl (SystemExit (ExitCode 1))
      | _ \<Rightarrow> Inl (SystemExit (ExitCode 1)))"

section \<open>run\_classifier.py: the checkpoint given to the trainer\<close>

text \<open>
  Lines 122-135 and 294-301 of \<open>main\<close>. The arguments are the fields of \<open>training_args\<close>
  and \<open>model_args\<close> that these lines read. What the file system answers is a record of
  observations: \<open>os.path.isdir\<close> and \<open>os.listdir\<close> of the output directory, the result
  of the library function \<open>get_last_checkpoint\<close> on it, and \<open>os.path.isdir\<close> of
  \<open>model_name_or_path\<close>.
\<close>

record train_args =
  output_dir :: string
  do_train :: bool
  overwrite_output_dir :: bool
  model_name_or_path :: string

record dir_view =
  output_dir_isdir :: bool
  output_dir_listdir :: "string list"
  output_dir_last_checkpoint :: "string option"
  model_path_isdir :: bool

text \<open>Lines 123-135: detecting the last checkpoint.\<close>

definition detect_last_checkpoint :: "dir_view \<Rightarrow> train_args \<Rightarrow> exn + string option" where
  "detect_last_checkpoint fs args =
     (if output_dir_isdir fs \<and> do_train args \<and> \<not> overwrite_output_dir args then
        (let last_checkpoint = output_dir_last_checkpoint fs in
         if last_checkpoint = None \<and> length (output_dir_listdir fs) > 0 then Inl ValueError
         else Inr last_checkpoint)
      else Inr None)"

text \<open>
  Lines 294-301: \<open>NoTraining\<close> when \<open>do_train\<close> is off, else \<open>Train c\<close> where \<open>c\<close> is the
  value of \<open>resume_from_checkpoint\<close> in the call of \<open>trainer.train\<close>.
\<close>

datatype train_call = NoTraining | Train "string option"

definition main_train_call :: "dir_view \<Rightarrow> train_args \<Rightarrow> exn + train_call" where
  "main_train_call fs args =
     (case detect_last_checkpoint fs args of
        Inl e \<Rightarrow> Inl e
      | Inr last_checkpoint \<Rightarrow>
          if do_train args then
            (if last_checkpoint \<noteq> None then Inr (Train last_checkpoint)
             else if model_path_isdir fs then Inr (Train (Some (model_name_or_path args)))
             else Inr (Train None))
          else Inr NoTraining)"

definition resuming_view :: dir_view where
  "resuming_view =
     \<lparr>output_dir_isdir = True, output_dir_listdir = [''checkpoint-500''],
      output_dir_last_checkpoint = Some ''out/checkpoint-500'', model_path_isdir = False\<rparr>"

definition resuming_args :: train_args where
  "resuming_args =
     \<lparr>output_dir = ''out'', do_train = True, overwrite_output_dir = False,
      model_name_or_path = ''facebook/wav2vec2-large-xlsr-53''\<rparr>"

section \<open>DidMain.py: model, optimizer and loss function\<close>

text \<open>
  The script up to the creation of its runner at line 120. By line 90 the entries
  \<open>config.general['optimizer']\<close> and \<open>config.general['loss_function']\<close> have been
  concatenated to a string (lines 49-50), so they are strings; the dictionaries
  \<open>config.optimizers\<close>, \<open>config.scheduler\<close> and \<open>config.loss_functions\<close> are first read
  from line 91 on and are maps, their numbers being JSON numbers. \<open>device_count\<close> is what
  \<open>torch.cuda.device_count()\<close> returns.
\<close>

record did_config =
  general_optimizer :: string
  general_loss_function :: string
  optimizers :: "string \<rightharpoonup> (string \<rightharpoonup> real)"
  scheduler :: "string \<rightharpoonup> real"
  loss_functions :: "string \<rightharpoonup> (string \<rightharpoonup> string)"

text \<open>
  What the code outside the script does when the script calls it, as far as it can end
  the script: the exception, if any, raised by lines 16-66 (reading the configuration,
  \<open>wandb.init\<close>, the printed summary, the two data sets), by the constructor of
  \<open>DidModel\<close> (lines 69-71), by \<open>DataParallelModel\<close> (line 76), by the two data loaders
  (lines 79-86), by \<open>StepLR\<close> on a step size and a gamma (lines 102-104) and by
  \<open>DataParallelCriterion\<close> (line 115).
\<close>

record did_libs =
  startup_error :: "exn option"
  DidModel_error :: "exn option"
  DataParallelModel_error :: "exn option"
  DataLoader_error :: "exn option"
  StepLR_error :: "real \<Rightarrow> real \<Rightarrow> exn option"
  DataParallelCriterion_error :: "exn option"

fun raise_if :: "exn option \<Rightarrow> exn + 'a \<Rightarrow> exn + 'a" where
  "raise_if None rest = rest"
| "raise_if (Some e) rest = Inl e"

datatype did_model = DidModel | DataParallelModel did_model

datatype did_optimizer = Adam did_model real real

datatype did_scheduler = StepLR did_optimizer real real

datatype did_loss = nll_loss | DataParallelCriterion did_loss

record did_runner =
  runner_model :: did_model
  runner_optimizer :: did_optimizer
  runner_scheduler :: did_scheduler
  runner_loss_function :: did_loss
  runner_output_for_loss :: string

text \<open>Lines 16-86: everything before the optimizer is selected; the result is the model.\<close>

definition build_model :: "did_libs \<Rightarrow> nat \<Rightarrow> exn + did_model" where
  "build_model libs device_count =
     raise_if (startup_error libs)
       (raise_if (DidModel_error libs)
          (if device_count > 1 then
             raise_if (DataParallelModel_error libs)
               (raise_if (DataLoader_error libs) (Inr (DataParallelModel DidModel)))
           else raise_if (DataLoader_error libs) (Inr DidModel)))"

text \<open>
  \<open>optim.Adam(params, lr=..., weight_decay=...)\<close> with the other arguments at their
  defaults: the constructor raises ValueError for a negative learning rate or a negative
  weight decay.
\<close>

definition optim_Adam :: "did_model \<Rightarrow> real \<Rightarrow> real \<Rightarrow> exn + did_optimizer" where
  "optim_Adam model lr weight_decay =
     (if lr < 0 \<or> weight_decay < 0 then Inl ValueError else Inr (Adam model lr weight_decay))"

text \<open>Lines 90-97.\<close>

definition select_optimizer :: "did_config \<Rightarrow> did_model \<Rightarrow> exn + did_optimizer" where
  "select_optimizer config model =
     (if general_optimizer config = ''adam'' then
        (case getitem (optimizers config) (general_optimizer config) of
           Inl e \<Rightarrow> Inl e
         | Inr params \<Rightarrow>
             (case getitem params ''lr'' of
                Inl e \<Rightarrow> Inl e
              | Inr lr \<Rightarrow>
                  (case getitem params ''weight_decay'' of
                     Inl e \<Rightarrow> Inl e
                   | Inr weight_decay \<Rightarrow> optim_Adam model lr weight_decay)))
      else Inl (SystemExit (ExitMsg (''you must specify optimizer for '' @ general_optimizer config))))"

text \<open>Lines 101-104.\<close>

definition make_scheduler :: "did_libs \<Rightarrow> did_config \<Rightarrow> did_optimizer \<Rightarrow> exn + did_scheduler" where
  "make_scheduler libs config optimizer =
     (case getitem (scheduler config) ''step_size'' of
        Inl e \<Rightarrow> Inl e
      | Inr step_size \<Rightarrow>
          (case getitem (scheduler config) ''gamma'' of
             Inl e \<Rightarrow> Inl e
           | Inr gamma \<Rightarrow>
               raise_if (StepLR_error libs step_size gamma)
                 (Inr (StepLR optimizer step_size gamma))))"

text \<open>Lines 107-110.\<close>

definition select_loss_function :: "did_config \<Rightarrow> exn + did_loss" where
  "select_loss_function config =
     (if general_loss_function config = ''nllLoss'' then Inr nll_loss
      else Inl (SystemExit (ExitMsg
             (''you must specify loss_function for '' @ general_loss_function config))))"

text \<open>Lines 113-115.\<close>

definition wrap_loss_function :: "did_libs \<Rightarrow> nat \<Rightarrow> did_loss \<Rightarrow> exn + did_loss" where
  "wrap_loss_function libs device_count loss_function =
     (if device_count > 1 then
        raise_if (DataParallelCriterion_error libs) (Inr (DataParallelCriterion loss_function))
      else Inr loss_function)"

text \<open>Line 117.\<close>

definition output_for_loss :: "did_config \<Rightarrow> exn + string" where
  "output_for_loss config =
     (case getitem (loss_functions config) (general_loss_function config) of
        Inl e \<Rightarrow> Inl e
      | Inr entry \<Rightarrow> getitem entry ''output'')"

text \<open>
  Lines 16-126, in the order of the script. The result is the exception that ends the
  script, or the arguments from which the runner is created at line 120.
\<close>

definition did_main :: "did_libs \<Rightarrow> did_config \<Rightarrow> nat \<Rightarrow> exn + did_runner" where
  "did_main libs config device_count =
     (case build_model libs device_count of
        Inl e \<Rightarrow> Inl e
      | Inr model \<Rightarrow>
          (case select_optimizer config model of
             Inl e \<Rightarrow> Inl e
           | Inr optimizer \<Rightarrow>
               (case make_scheduler libs config optimizer of
                  Inl e \<Rightarrow> Inl e
                | Inr sched \<Rightarrow>
                    (case select_loss_function config of
                       Inl e \<Rightarrow> Inl e
                     | Inr loss0 \<Rightarrow>
                         (case wrap_loss_function libs device_count loss0 of
                            Inl e \<Rightarrow> Inl e
                          | Inr loss_function \<Rightarrow>
                              (case output_for_loss config of
                                 Inl e \<Rightarrow> Inl e
                               | Inr out \<Rightarrow>
                                   Inr \<lparr>runner_model = model, runner_optimizer = optimizer,
                                        runner_scheduler = sched,
                                        runner_loss_function = loss_function,
                                        runner_output_for_loss = out\<rparr>))))))"

text \<open>Libraries that raise nothing, and two configurations.\<close>

definition quiet_libs :: did_libs where
  "quiet_libs =
     \<lparr>startup_error = None, DidModel_error = None, DataParallelModel_error = None,
      DataLoader_error = None, StepLR_error = (\<lambda>step_size gamma. None),
      DataParallelCriterion_error = None\<rparr>"

definition adam_config :: did_config where
  "adam_config =
     \<lparr>general_optimizer = ''adam'', general_loss_function = ''nllLoss'',
      optimizers = [''adam'' \<mapsto> [''lr'' \<mapsto> 3, ''weight_decay'' \<mapsto> 0]],
      scheduler = [''step_size'' \<mapsto> 10, ''gamma'' \<mapsto> 1],
      loss_functions = [''nllLoss'' \<mapsto> [''output'' \<mapsto> ''log_softmax'']]\<rparr>"

definition mse_config_without_scheduler :: did_config where
  "mse_config_without_scheduler =
     \<lparr>general_optimizer = ''adam'', general_loss_function = ''mse'',
      optimizers = [''adam'' \<mapsto> [''lr'' \<mapsto> 3, ''weight_decay'' \<mapsto> 0]],
      scheduler = Map.empty,
      loss_functions = [''mse'' \<mapsto> [''output'' \<mapsto> ''softmax'']]\<rparr>"

section \<open>run\_classifier.py: DataCollatorCTCWithPadding\<close>

text \<open>
  A feature is a dictionary with the entries \<open>input_values\<close> (the samples) and \<open>labels\<close>
  (the class index, a Python int). The collator is the dataclass without its \<open>processor\<close>
  and \<open>padding\<close> fields, which \<open>__call__\<close> reads only to call \<open>processor.pad\<close>.
\<close>

record feature =
  input_values :: "real list"
  labels :: int

record collator =
  max_length :: "int option"
  max_length_labels :: "int option"
  pad_to_multiple_of :: "int option"
  pad_to_multiple_of_labels :: "int option"
  number_of_labels :: "int option"

record batch =
  batch_input_values :: "real list list"
  batch_labels :: "int list list"

text \<open>
  Python's \<open>xs[i] = v\<close> on a list: an index from \<open>-len(xs)\<close> to \<open>len(xs) - 1\<close> is
  accepted, a negative one counting from the end; any other raises IndexError.
\<close>

definition list_setitem :: "'a list \<Rightarrow> int \<Rightarrow> 'a \<Rightarrow> exn + 'a list" where
  "list_setitem xs i v =
     (let n = int (length xs); j = (if i < 0 then i + n else i)
      in if 0 \<le> j \<and> j < n then Inr (xs[nat j := v]) else Inl IndexError)"

text \<open>
  Lines 86-89. \<open>[0] * n\<close> is the empty list for \<open>n \<le> 0\<close> and raises TypeError when
  \<open>number_of_labels\<close> is \<open>None\<close>.
\<close>

definition onehot :: "collator \<Rightarrow> int \<Rightarrow> exn + int list" where
  "onehot self lbl =
     (case number_of_labels self of
        None \<Rightarrow> Inl TypeError
      | Some n \<Rightarrow> list_setitem (replicate (nat n) 0) lbl 1)"

text \<open>A list comprehension whose body may raise: the first exception ends it.\<close>

fun map_exn :: "('a \<Rightarrow> exn + 'b) \<Rightarrow> 'a list \<Rightarrow> exn + 'b list" where
  "map_exn f [] = Inr []"
| "map_exn f (x # xs) =
     (case f x of
        Inl e \<Rightarrow> Inl e
      | Inr y \<Rightarrow> (case map_exn f xs of Inl e \<Rightarrow> Inl e | Inr ys \<Rightarrow> Inr (y # ys)))"

text \<open>
  Modelled from the spec: the three helpers of \<open>processor.pad\<close> below, which is not
  among the sources: the length of the longest row, the next multiple of \<open>m\<close> from
  \<open>n\<close> on, and a row filled with the padding value 0 up to \<open>n\<close> samples.
\<close>

definition longest :: "'a list list \<Rightarrow> nat" where
  "longest rows = fold max (map length rows) 0"

definition round_up :: "nat \<Rightarrow> nat \<Rightarrow> nat" where
  "round_up n m = (if n mod m = 0 then n else (n div m + 1) * m)"

definition pad_row :: "nat \<Rightarrow> real list \<Rightarrow> real list" where
  "pad_row n row = row @ replicate (n - length row) 0"

text \<open>
  Modelled from the spec: \<open>processor.pad\<close> of the class \<open>CustomWav2Vec2Processor\<close>, whose
  module \<open>processors\<close> is not among the sources. The spec describes collation as packing a
  batch of variable-length audio samples into a fixed-shape tensor via padding. With
  \<open>padding=True\<close> the rows are filled with the padding value 0 up to the longest row, and
  up to the next multiple of \<open>pad_to_multiple_of\<close> when that is given; \<open>max_length\<close> plays
  no part under this strategy. An empty batch and a multiple that is not positive are
  outside what the spec describes and are a failure here.
\<close>

definition pad :: "real list list \<Rightarrow> int option \<Rightarrow> int option \<Rightarrow> exn + real list list" where
  "pad rows max_len multiple =
     (if rows = [] then Inl PadError
      else case multiple of
        None \<Rightarrow> Inr (map (pad_row (longest rows)) rows)
      | Some m \<Rightarrow>
          if m \<le> 0 then Inl PadError
          else Inr (map (pad_row (round_up (longest rows) (nat m))) rows))"

text \<open>Lines 80-106.\<close>

definition DataCollatorCTCWithPadding_call :: "collator \<Rightarrow> feature list \<Rightarrow> exn + batch" where
  "DataCollatorCTCWithPadding_call self features =
     (let input_features = map input_values features in
      case map_exn (\<lambda>feature. onehot self (labels feature)) features of
        Inl e \<Rightarrow> Inl e
      | Inr output_features \<Rightarrow>
          (case pad input_features (max_length self) (pad_to_multiple_of self) of
             Inl e \<Rightarrow> Inl e
           | Inr rows \<Rightarrow>
               Inr \<lparr>batch_input_values = rows, batch_labels = output_features\<rparr>))"

text \<open>The collator with the defaults of the dataclass, for four samples per window.\<close>

definition small_collator :: collator where
  "small_collator =
     \<lparr>max_length = Some 4, max_length_labels = None, pad_to_multiple_of = Some 4,
      pad_to_multiple_of_labels = None, number_of_labels = Some 5\<rparr>"

section \<open>com\_voice\_speech\_corpus5.py: \_generate\_examples\<close>

text \<open>
  What \<open>os.listdir\<close> and \<open>os.path.isdir\<close> answer under \<open>archive_path\<close>: the entries of
  the directory in listing order, each a name with \<open>File\<close>, or with \<open>Dir\<close> and the listing
  of that subdirectory.
\<close>

datatype node = File | Dir "string list"

record example =
  example_file :: string
  example_label :: string

text \<open>Python's \<open>str\<close> on a non-negative int.\<close>

function str :: "nat \<Rightarrow> string" where
  "str n = (if n < 10 then [''0123456789'' ! n]
            else str (n div 10) @ [''0123456789'' ! (n mod 10)])"
  by pat_completeness auto
termination
  by (relation "measure id") auto

declare str.simps [simp del]

text \<open>Lines 100-104: the inner loop over the first 4000 entries of the directory \<open>c\<close>.\<close>

definition mp3_files :: "string \<Rightarrow> string \<Rightarrow> string list \<Rightarrow> (string \<times> string) list" where
  "mp3_files wav_dir c entries =
     map (\<lambda>fname. (wav_dir @ ''/'' @ c @ ''/'' @ fname, c))
       (filter (\<lambda>fname. endswith fname ''.mp3'') (take 4000 entries))"

text \<open>Lines 95-106: the outer loop; the result is \<open>list(zip(paths, labls))\<close>.\<close>

fun collect :: "string \<Rightarrow> (string \<times> node) list \<Rightarrow> (string \<times> string) list" where
  "collect wav_dir [] = []"
| "collect wav_dir ((c, File) # rest) = collect wav_dir rest"
| "collect wav_dir ((c, Dir entries) # rest) = mp3_files wav_dir c entries @ collect wav_dir rest"

text \<open>
  Lines 91-114. \<open>shuffle seed xs\<close> is the list that \<open>random.Random(seed).shuffle\<close> leaves
  in place of \<open>xs\<close>; it belongs to the standard library and is a parameter. Unpacking
  \<open>zip(*data)\<close> into two names raises ValueError when \<open>data\<close> is empty. The result lists
  the pairs the generator yields, in order; \<open>example_file\<close> and \<open>example_label\<close> are the
  entries \<open>"file"\<close> and \<open>"label"\<close> of an example.
\<close>

definition generate_examples ::
  "(int \<Rightarrow> (string \<times> string) list \<Rightarrow> (string \<times> string) list) \<Rightarrow> string \<Rightarrow>
   (string \<times> node) list \<Rightarrow> exn + (string \<times> example) list" where
  "generate_examples shuffle archive_path listing =
     (let data = shuffle 4 (collect archive_path listing) in
      if data = [] then Inl ValueError
      else Inr (map (\<lambda>i. (str i, \<lparr>example_file = fst (data ! i), example_label = snd (data ! i)\<rparr>))
                  [0..<length data]))"

text \<open>
  A run of the generator. The module \<open>random\<close> is a parameter: \<open>new_rng seed\<close> is the
  state of the generator that \<open>random.Random(seed)\<close> creates, and \<open>rng_shuffle g xs\<close> is
  the list that the \<open>shuffle\<close> method of a generator in state \<open>g\<close> leaves in place of
  \<open>xs\<close>, with the state it leaves the generator in. What a run finds is the listing under
  \<open>archive_path\<close> and the state of the module's own generator, the one \<open>random.shuffle\<close>
  and \<open>random.random\<close> use and that differs from run to run. Line 107 creates a
  generator of its own with seed 4 and shuffles with it.
\<close>

record 'g run_env =
  run_listing :: "(string \<times> node) list"
  run_global_rng :: 'g

definition run_generate_examples ::
  "(int \<Rightarrow> 'g) \<Rightarrow> ('g \<Rightarrow> (string \<times> string) list \<Rightarrow> (string \<times> string) list \<times> 'g) \<Rightarrow>
   'g run_env \<Rightarrow> string \<Rightarrow> exn + (string \<times> example) list" where
  "run_generate_examples new_rng rng_shuffle env archive_path =
     generate_examples (\<lambda>seed data. fst (rng_shuffle (new_rng seed) data))
       archive_path (run_listing env)"

text \<open>
  Stand-ins used at concrete inputs: a shuffle that reverses, and a generator whose state
  is a counter, started at the seed, that rotates the list by its state.
\<close>

definition reversing_shuffle :: "int \<Rightarrow> 'a list \<Rightarrow> 'a list" where
  "reversing_shuffle seed xs = rev xs"

definition counter_rng :: "int \<Rightarrow> nat" where
  "counter_rng seed = nat seed"

definition rotating_shuffle :: "nat \<Rightarrow> 'a list \<Rightarrow> 'a list \<times> nat" where
  "rotating_shuffle g xs = (rotate g xs, Suc g)"

definition three_mp3_listing :: "(string \<times> node) list" where
  "three_mp3_listing =
     [(''NLD'', Dir [''a.mp3'', ''b.txt'', ''d.mp3'']), (''README'', File),
      (''ESP'', Dir [''c.mp3''])]"

section \<open>Reading audio\<close>

text \<open>
  The values a batch dictionary holds, and Python's slice \<open>xs[start:stop]\<close> as
  \<open>slice(start, stop).indices(len(xs))\<close> computes it: a negative bound counts from the
  end, and both bounds are clamped to the length.
\<close>

datatype pyval = PyStr string | PyInt int | PyArray "real list" | PyNone

definition clamp_index :: "int \<Rightarrow> nat \<Rightarrow> nat" where
  "clamp_index i n = (if i < 0 then nat (max (i + int n) 0) else min (nat i) n)"

definition py_slice :: "'a list \<Rightarrow> int option \<Rightarrow> int option \<Rightarrow> 'a list" where
  "py_slice xs start stop =
     (let n = length xs;
          a = (case start of None \<Rightarrow> 0 | Some i \<Rightarrow> clamp_index i n);
          b = (case stop of None \<Rightarrow> n | Some i \<Rightarrow> clamp_index i n)
      in take (b - a) (drop a xs))"

text \<open>
  The library function \<open>soundfile.read(file, start=..., stop=...)\<close>. \<open>files\<close> maps the
  name of a readable sound file to its frames and sample rate. The library opens the file,
  then takes \<open>slice(start, stop).indices(frames)\<close>, which raises TypeError on a bound that
  is neither an int nor \<open>None\<close>, and returns the frames of that slice with the sample rate.
\<close>

definition slice_bound :: "pyval \<Rightarrow> exn + int option" where
  "slice_bound v = (case v of PyInt i \<Rightarrow> Inr (Some i) | PyNone \<Rightarrow> Inr None | _ \<Rightarrow> Inl TypeError)"

definition sf_read ::
  "(string \<rightharpoonup> real list \<times> nat) \<Rightarrow> string \<Rightarrow> pyval \<Rightarrow> pyval \<Rightarrow> exn + real list \<times> nat" where
  "sf_read files name start stop =
     (case files name of
        None \<Rightarrow> Inl RuntimeError
      | Some (frames, samplerate) \<Rightarrow>
          (case slice_bound start of
             Inl e \<Rightarrow> Inl e
           | Inr a \<Rightarrow>
               (case slice_bound stop of
                  Inl e \<Rightarrow> Inl e
                | Inr b \<Rightarrow> Inr (py_slice frames a b, samplerate))))"

text \<open>Python's \<open>s.split(sep)\<close> for a separator of one character.\<close>

fun str_split :: "char \<Rightarrow> string \<Rightarrow> string list" where
  "str_split sep [] = [[]]"
| "str_split sep (c # cs) =
     (if c = sep then [] # str_split sep cs
      else (case str_split sep cs of w # ws \<Rightarrow> (c # w) # ws | [] \<Rightarrow> [[c]]))"

text \<open>
  com\_voice\_speech\_corpus5.py, lines 47-51. \<open>start\<close> and \<open>stop\<close> are the two strings
  that \<open>split\<close> returns, and go to \<open>sf.read\<close> as they are. Unpacking anything but two
  parts raises ValueError.
\<close>

definition map_to_array ::
  "(string \<rightharpoonup> real list \<times> nat) \<Rightarrow> (string \<rightharpoonup> pyval) \<Rightarrow> exn + (string \<rightharpoonup> pyval)" where
  "map_to_array files batch =
     (case getitem batch ''segment'' of
        Inl e \<Rightarrow> Inl e
      | Inr (PyStr segment) \<Rightarrow>
          (case str_split CHR ''_'' segment of
             [start, stop] \<Rightarrow>
               (case getitem batch ''file'' of
                  Inl e \<Rightarrow> Inl e
                | Inr (PyStr name) \<Rightarrow>
                    (case sf_read files name (PyStr start) (PyStr stop) of
                       Inl e \<Rightarrow> Inl e
                     | Inr (speech_array, _) \<Rightarrow> Inr (batch(''speech'' \<mapsto> PyArray speech_array)))
                | Inr _ \<Rightarrow> Inl TypeError)
           | _ \<Rightarrow> Inl ValueError)
      | Inr _ \<Rightarrow> Inl AttributeError)"

text \<open>
  run\_classifier.py, lines 204-216. The libraries are parameters: the sound files that
  \<open>sf.read\<close> can read, the files that \<open>torchaudio.load\<close> can decode (channels and sample
  rate), and \<open>librosa.resample\<close>. \<open>window_length\<close> is \<open>data_args.window_length\<close>.
\<close>

record audio_libs =
  sf_files :: "string \<rightharpoonup> real list \<times> nat"
  torchaudio_files :: "string \<rightharpoonup> real list list \<times> nat"
  resample :: "real list \<Rightarrow> nat \<Rightarrow> nat \<Rightarrow> real list"

definition torchaudio_load ::
  "(string \<rightharpoonup> real list list \<times> nat) \<Rightarrow> string \<Rightarrow> exn + real list list \<times> nat" where
  "torchaudio_load files name = (case files name of None \<Rightarrow> Inl RuntimeError | Some r \<Rightarrow> Inr r)"

text \<open>
  Lines 205-212: the two branches bind \<open>speech_array\<close> and \<open>sampling_rate\<close>; with neither
  taken, line 213 reads \<open>speech_array\<close> unbound.
\<close>

definition read_speech :: "audio_libs \<Rightarrow> int \<Rightarrow> string \<Rightarrow> exn + real list \<times> nat" where
  "read_speech libs window_length name =
     (let start = 0; stop = window_length; srate = 16000 in
      if endswith name ''.wav'' then
        sf_read (sf_files libs) name (PyInt (start * srate)) (PyInt (stop * srate))
      else if endswith name ''.mp3'' then
        (case torchaudio_load (torchaudio_files libs) name of
           Inl e \<Rightarrow> Inl e
         | Inr (channels, sampling_rate) \<Rightarrow>
             (case channels of
                [] \<Rightarrow> Inl IndexError
              | channel # _ \<Rightarrow> Inr (py_slice channel None (Some (stop * srate)), sampling_rate)))
      else Inl UnboundLocalError)"

definition speech_file_to_array_fn ::
  "audio_libs \<Rightarrow> int \<Rightarrow> (string \<rightharpoonup> pyval) \<Rightarrow> exn + (string \<rightharpoonup> pyval)" where
  "speech_file_to_array_fn libs window_length batch =
     (case getitem batch ''file'' of
        Inl e \<Rightarrow> Inl e
      | Inr (PyStr name) \<Rightarrow>
          (case read_speech libs window_length name of
             Inl e \<Rightarrow> Inl e
           | Inr (speech_array, sampling_rate) \<Rightarrow>
               (case getitem batch ''label'' of
                  Inl e \<Rightarrow> Inl e
                | Inr lbl \<Rightarrow>
                    Inr (batch(''speech'' \<mapsto> PyArray (resample libs speech_array sampling_rate 16000),
                               ''sampling_rate'' \<mapsto> PyInt 16000,
                               ''parent'' \<mapsto> lbl))))
      | Inr _ \<Rightarrow> Inl AttributeError)"

text \<open>
  Libraries with one file of each kind, each longer than one second at 16000 samples per
  second, and a resampling that keeps the samples.
\<close>

definition small_libs :: audio_libs where
  "small_libs =
     \<lparr>sf_files = [''a.wav'' \<mapsto> (replicate 16000 1 @ [2, 3], 16000)],
      torchaudio_files = [''b.mp3'' \<mapsto> ([replicate 16000 4 @ [5], replicate 16001 6], 44100)],
      resample = (\<lambda>xs orig target. xs)\<rparr>"

section \<open>Properties\<close>

lemma endswith_suffix: "endswith s suf = suffix suf s"
proof
  assume "endswith s suf"
  then have "s = take (length s - length suf) s @ suf"
    by (metis append_take_drop_id endswith_def)
  then show "suffix suf s"
    by (metis suffixI)
next
  assume "suffix suf s"
  then obtain p where "s = p @ suf"
    by (auto simp: suffix_def)
  then show "endswith s suf"
    by (simp add: endswith_def)
qed

text \<open>
  Claim C6. The configuration comes from a JSON file only: unless the argument vector is
  exactly the program name followed by one argument ending in \<open>.json\<close>, \<open>main\<close> exits with
  status 1; otherwise the arguments are what \<open>parse_json_file\<close> returns on the absolute
  path of that argument.
\<close>

theorem main_parse_args_json_only:
  "(\<not> (length argv = 2 \<and> endswith (argv ! 1) ''.json'') \<longrightarrow>
      main_parse_args abspath parse_json_file argv = Inl (SystemExit (ExitCode 1))) \<and>
   (length argv = 2 \<and> endswith (argv ! 1) ''.json'' \<longrightarrow>
      main_parse_args abspath parse_json_file argv = parse_json_file (abspath (argv ! 1)))"
proof -
  consider "argv = []" | x where "argv = [x]" | p a where "argv = [p, a]"
    | p a b r where "argv = p # a # b # r"
    by (metis list.exhaust)
  then show ?thesis
    by cases (simp_all add: main_parse_args_def)
qed

theorem main_parse_args_json_only_witness:
  "main_parse_args id Inr [''run_classifier.py'', ''--help''] = Inl (SystemExit (ExitCode 1)) \<and>
   main_parse_args id Inr [''run_classifier.py''] = Inl (SystemExit (ExitCode 1)) \<and>
   main_parse_args id Inr [''run_classifier.py'', ''cfg.json''] = Inr ''cfg.json''"
  using main_parse_args_json_only [of "[''run_classifier.py'', ''--help'']" id Inr]
    main_parse_args_json_only [of "[''run_classifier.py'']" id Inr]
    main_parse_args_json_only [of "[''run_classifier.py'', ''cfg.json'']" id Inr]
  by (simp add: endswith_def)

subsection \<open>The checkpoint given to the trainer\<close>

text \<open>
  Claim C4, as stated: training never resumes from saved state, the checkpoint passed to
  \<open>trainer.train\<close> is always \<open>None\<close> whatever the output directory holds. It fails: with
  an existing output directory in which \<open>get_last_checkpoint\<close> finds a checkpoint,
  \<open>do_train\<close> set and \<open>overwrite_output_dir\<close> unset, that checkpoint is passed.
\<close>

theorem main_train_call_resumes_counterexample:
  "main_train_call resuming_view resuming_args = Inr (Train (Some ''out/checkpoint-500''))"
  by (simp add: main_train_call_def detect_last_checkpoint_def resuming_view_def
      resuming_args_def)

text \<open>
  Claim C4, amended. When \<open>do_train\<close> is set, \<open>main\<close> raises ValueError if the output
  directory exists, may not be overwritten, holds no checkpoint and is not empty;
  otherwise it calls \<open>trainer.train\<close> with the last checkpoint of the output directory
  when that directory exists, may not be overwritten and holds one, else with
  \<open>model_name_or_path\<close> when that is a directory, else with \<open>None\<close>.
\<close>

theorem main_train_call_checkpoint:
  assumes "do_train args"
  shows "main_train_call fs args =
     (if output_dir_isdir fs \<and> \<not> overwrite_output_dir args \<and>
         output_dir_last_checkpoint fs = None \<and> output_dir_listdir fs \<noteq> []
      then Inl ValueError
      else Inr (Train
        (if output_dir_isdir fs \<and> \<not> overwrite_output_dir args \<and>
            output_dir_last_checkpoint fs \<noteq> None
         then output_dir_last_checkpoint fs
         else if model_path_isdir fs then Some (model_name_or_path args)
         else None)))"
  using assms
  by (simp add: main_train_call_def detect_last_checkpoint_def Let_def)

theorem main_train_call_checkpoint_witness:
  "do_train resuming_args \<and>
   main_train_call resuming_view resuming_args = Inr (Train (Some ''out/checkpoint-500'')) \<and>
   main_train_call (resuming_view\<lparr>output_dir_last_checkpoint := None\<rparr>) resuming_args
     = Inl ValueError \<and>
   main_train_call (resuming_view\<lparr>output_dir_isdir := False\<rparr>) resuming_args
     = Inr (Train None)"
  using main_train_call_checkpoint [of resuming_args resuming_view]
    main_train_call_checkpoint
      [of resuming_args "resuming_view\<lparr>output_dir_last_checkpoint := None\<rparr>"]
    main_train_call_checkpoint [of resuming_args "resuming_view\<lparr>output_dir_isdir := False\<rparr>"]
  by (simp add: resuming_view_def resuming_args_def)

subsection \<open>DidMain.py\<close>

lemma build_model_Inr:
  assumes "build_model libs n = Inr model"
  shows "model = (if 1 < n then DataParallelModel DidModel else DidModel)"
  using assms
  by (cases "startup_error libs"; cases "DidModel_error libs";
      cases "DataParallelModel_error libs"; cases "DataLoader_error libs")
     (simp_all add: build_model_def split: if_splits)

lemma build_model_reached:
  assumes "startup_error libs = None" and "DidModel_error libs = None"
    and "DataLoader_error libs = None" and "1 < n \<longrightarrow> DataParallelModel_error libs = None"
  shows "build_model libs n = Inr (if 1 < n then DataParallelModel DidModel else DidModel)"
  using assms by (simp add: build_model_def)

lemma select_optimizer_Inr:
  assumes "select_optimizer config model = Inr opt"
  shows "general_optimizer config = ''adam'' \<and>
         (\<exists>params lr wd. optimizers config ''adam'' = Some params \<and> params ''lr'' = Some lr \<and>
            params ''weight_decay'' = Some wd \<and> opt = Adam model lr wd)"
  using assms
  by (auto simp: select_optimizer_def optim_Adam_def getitem_def split: if_splits option.splits)

lemma wrap_loss_function_Inr:
  assumes "wrap_loss_function libs n l = Inr l'"
  shows "l' = (if 1 < n then DataParallelCriterion l else l)"
  using assms
  by (cases "DataParallelCriterion_error libs")
     (simp_all add: wrap_loss_function_def split: if_splits)

lemma did_main_Inr:
  assumes "did_main libs config n = Inr r"
  shows "select_optimizer config (if 1 < n then DataParallelModel DidModel else DidModel)
           = Inr (runner_optimizer r) \<and>
         runner_model r = (if 1 < n then DataParallelModel DidModel else DidModel) \<and>
         general_loss_function config = ''nllLoss'' \<and>
         runner_loss_function r = (if 1 < n then DataParallelCriterion nll_loss else nll_loss)"
proof -
  from assms obtain model opt sched l l' out where
    m: "build_model libs n = Inr model"
    and o: "select_optimizer config model = Inr opt"
    and l: "select_loss_function config = Inr l"
    and w: "wrap_loss_function libs n l = Inr l'"
    and r: "r = \<lparr>runner_model = model, runner_optimizer = opt, runner_scheduler = sched,
                 runner_loss_function = l', runner_output_for_loss = out\<rparr>"
    unfolding did_main_def by (auto split: sum.splits)
  from l have "general_loss_function config = ''nllLoss''" and "l = nll_loss"
    by (auto simp: select_loss_function_def split: if_splits)
  with build_model_Inr [OF m] wrap_loss_function_Inr [OF w] o r show ?thesis by simp
qed

text \<open>
  Claim C5, as stated: for every configuration a loss function name other than
  \<open>nllLoss\<close> makes the script raise SystemExit. It fails: the optimizer and the scheduler
  are built before the loss function is tested, so with the optimizer \<open>adam\<close>, the loss
  function \<open>mse\<close> and no \<open>step_size\<close> under \<open>config.scheduler\<close> the script raises
  KeyError at line 101.
\<close>

theorem did_main_keyerror_counterexample:
  "did_main quiet_libs mse_config_without_scheduler 1 = Inl (KeyError ''step_size'')"
  by (simp add: did_main_def quiet_libs_def mse_config_without_scheduler_def build_model_def
      select_optimizer_def optim_Adam_def make_scheduler_def getitem_def)

text \<open>
  Claim C5, amended. When lines 16-86 raise nothing, an optimizer name other than
  \<open>adam\<close> makes the script raise SystemExit. A loss function name other than \<open>nllLoss\<close>
  makes it raise SystemExit when, besides, the optimizer and the scheduler have been
  built: the optimizer is \<open>adam\<close>, its \<open>lr\<close> and \<open>weight_decay\<close> are there and not
  negative, and \<open>step_size\<close> and \<open>gamma\<close> are there and accepted by \<open>StepLR\<close>. Whenever
  the script creates its runner, the optimizer is Adam with the configured \<open>lr\<close> and
  \<open>weight_decay\<close> and the loss function is the negative log-likelihood (wrapped or not,
  see C7).
\<close>

theorem did_main_optimizer_and_loss:
  assumes "startup_error libs = None" and "DidModel_error libs = None"
    and "DataLoader_error libs = None" and "1 < n \<longrightarrow> DataParallelModel_error libs = None"
  shows
  "(general_optimizer config \<noteq> ''adam'' \<longrightarrow>
      did_main libs config n =
        Inl (SystemExit (ExitMsg (''you must specify optimizer for '' @ general_optimizer config)))) \<and>
   (general_optimizer config = ''adam'' \<and> optimizers config ''adam'' = Some params \<and>
    params ''lr'' = Some lr \<and> params ''weight_decay'' = Some wd \<and> 0 \<le> lr \<and> 0 \<le> wd \<and>
    scheduler config ''step_size'' = Some step_size \<and> scheduler config ''gamma'' = Some gamma \<and>
    StepLR_error libs step_size gamma = None \<and>
    general_loss_function config \<noteq> ''nllLoss'' \<longrightarrow>
      did_main libs config n =
        Inl (SystemExit (ExitMsg
          (''you must specify loss_function for '' @ general_loss_function config)))) \<and>
   (did_main libs config n = Inr r \<longrightarrow>
      general_optimizer config = ''adam'' \<and> general_loss_function config = ''nllLoss'' \<and>
      (\<exists>ps l w. optimizers config ''adam'' = Some ps \<and> ps ''lr'' = Some l \<and>
         ps ''weight_decay'' = Some w \<and> runner_optimizer r = Adam (runner_model r) l w) \<and>
      (runner_loss_function r = nll_loss \<or>
       runner_loss_function r = DataParallelCriterion nll_loss))"
proof (intro conjI impI)
  note m = build_model_reached [OF assms]
  assume "general_optimizer config \<noteq> ''adam''"
  then show "did_main libs config n =
      Inl (SystemExit (ExitMsg (''you must specify optimizer for '' @ general_optimizer config)))"
    by (simp add: did_main_def m select_optimizer_def)
next
  note m = build_model_reached [OF assms]
  assume h: "general_optimizer config = ''adam'' \<and> optimizers config ''adam'' = Some params \<and>
    params ''lr'' = Some lr \<and> params ''weight_decay'' = Some wd \<and> 0 \<le> lr \<and> 0 \<le> wd \<and>
    scheduler config ''step_size'' = Some step_size \<and> scheduler config ''gamma'' = Some gamma \<and>
    StepLR_error libs step_size gamma = None \<and>
    general_loss_function config \<noteq> ''nllLoss''"
  then show "did_main libs config n =
        Inl (SystemExit (ExitMsg
          (''you must specify loss_function for '' @ general_loss_function config)))"
    by (simp add: did_main_def m select_optimizer_def optim_Adam_def make_scheduler_def
        select_loss_function_def getitem_def)
next
  assume r: "did_main libs config n = Inr r"
  note d = did_main_Inr [OF r]
  from d have o: "select_optimizer config (runner_model r) = Inr (runner_optimizer r)"
    by simp
  show "general_optimizer config = ''adam''"
    using select_optimizer_Inr [OF o] by simp
  show "general_loss_function config = ''nllLoss''"
    using d by simp
  show "\<exists>ps l w. optimizers config ''adam'' = Some ps \<and> ps ''lr'' = Some l \<and>
         ps ''weight_decay'' = Some w \<and> runner_optimizer r = Adam (runner_model r) l w"
    using select_optimizer_Inr [OF o] by blast
  show "runner_loss_function r = nll_loss \<or>
       runner_loss_function r = DataParallelCriterion nll_loss"
    using d by (simp split: if_splits)
qed

lemma did_main_adam_config:
  "did_main quiet_libs adam_config n =
     Inr \<lparr>runner_model = (if 1 < n then DataParallelModel DidModel else DidModel),
          runner_optimizer = Adam (if 1 < n then DataParallelModel DidModel else DidModel) 3 0,
          runner_scheduler =
            StepLR (Adam (if 1 < n then DataParallelModel DidModel else DidModel) 3 0) 10 1,
          runner_loss_function = (if 1 < n then DataParallelCriterion nll_loss else nll_loss),
          runner_output_for_loss = ''log_softmax''\<rparr>"
  by (simp add: did_main_def quiet_libs_def adam_config_def build_model_def select_optimizer_def
      optim_Adam_def make_scheduler_def select_loss_function_def wrap_loss_function_def
      output_for_loss_def getitem_def)

theorem did_main_optimizer_and_loss_witness:
  "did_main quiet_libs (adam_config\<lparr>general_optimizer := ''sgd''\<rparr>) 1 =
     Inl (SystemExit (ExitMsg ''you must specify optimizer for sgd'')) \<and>
   did_main quiet_libs (adam_config\<lparr>general_loss_function := ''mse''\<rparr>) 1 =
     Inl (SystemExit (ExitMsg ''you must specify loss_function for mse'')) \<and>
   (\<exists>r. did_main quiet_libs adam_config 1 = Inr r \<and>
      runner_optimizer r = Adam (runner_model r) 3 0 \<and> runner_loss_function r = nll_loss)"
proof -
  have q: "startup_error quiet_libs = None" "DidModel_error quiet_libs = None"
    "DataLoader_error quiet_libs = None"
    "1 < (1::nat) \<longrightarrow> DataParallelModel_error quiet_libs = None"
    by (simp_all add: quiet_libs_def)
  let ?ps = "[''lr'' \<mapsto> 3::real, ''weight_decay'' \<mapsto> 0]"
  let ?r = "\<lparr>runner_model = DidModel, runner_optimizer = Adam DidModel 3 0,
          runner_scheduler = StepLR (Adam DidModel 3 0) 10 1,
          runner_loss_function = nll_loss, runner_output_for_loss = ''log_softmax''\<rparr>"
  have r: "did_main quiet_libs adam_config 1 = Inr ?r"
    using did_main_adam_config [of 1] by simp
  have 1: "did_main quiet_libs (adam_config\<lparr>general_optimizer := ''sgd''\<rparr>) 1 =
     Inl (SystemExit (ExitMsg ''you must specify optimizer for sgd''))"
    using did_main_optimizer_and_loss [OF q,
        where config = "adam_config\<lparr>general_optimizer := ''sgd''\<rparr>" and params = ?ps
          and lr = 3 and wd = 0 and step_size = 10 and gamma = 1 and r = ?r]
    by (simp add: adam_config_def)
  have 2: "did_main quiet_libs (adam_config\<lparr>general_loss_function := ''mse''\<rparr>) 1 =
     Inl (SystemExit (ExitMsg ''you must specify loss_function for mse''))"
    using did_main_optimizer_and_loss [OF q,
        where config = "adam_config\<lparr>general_loss_function := ''mse''\<rparr>" and params = ?ps
          and lr = 3 and wd = 0 and step_size = 10 and gamma = 1 and r = ?r]
    by (simp add: adam_config_def quiet_libs_def)
  note c3 = did_main_optimizer_and_loss [OF q,
        where config = adam_config and params = ?ps
          and lr = 3 and wd = 0 and step_size = 10 and gamma = 1 and r = ?r,
        THEN conjunct2, THEN conjunct2, THEN mp, OF r]
  have 3: "runner_loss_function ?r = nll_loss"
    using c3 by simp
  have 4: "runner_optimizer ?r = Adam (runner_model ?r) 3 0"
    by simp
  show ?thesis
  proof (intro conjI exI)
    show "did_main quiet_libs adam_config 1 = Inr ?r" by (rule r)
    show "runner_optimizer ?r = Adam (runner_model ?r) 3 0" by (rule 4)
    show "runner_loss_function ?r = nll_loss" by (rule 3)
  qed (rule 1 2)+
qed

text \<open>
  Claim C7. The model is wrapped with \<open>DataParallelModel\<close> and the loss function with
  \<open>DataParallelCriterion\<close> exactly when more than one CUDA device is counted; with at
  most one device both are used as they are.
\<close>

theorem did_main_wrapping:
  assumes "did_main libs config device_count = Inr r"
  shows "(1 < device_count \<longrightarrow>
            runner_model r = DataParallelModel DidModel \<and>
            runner_loss_function r = DataParallelCriterion nll_loss) \<and>
         (device_count \<le> 1 \<longrightarrow>
            runner_model r = DidModel \<and> runner_loss_function r = nll_loss)"
  using did_main_Inr [OF assms] by simp

theorem did_main_wrapping_witness:
  "(\<exists>r. did_main quiet_libs adam_config 2 = Inr r \<and> runner_model r = DataParallelModel DidModel \<and>
      runner_loss_function r = DataParallelCriterion nll_loss) \<and>
   (\<exists>r. did_main quiet_libs adam_config 1 = Inr r \<and> runner_model r = DidModel \<and>
      runner_loss_function r = nll_loss)"
proof -
  obtain r2 where r2: "did_main quiet_libs adam_config 2 = Inr r2"
    using did_main_adam_config [of 2] by simp
  obtain r1 where r1: "did_main quiet_libs adam_config 1 = Inr r1"
    using did_main_adam_config [of 1] by simp
  show ?thesis
    using did_main_wrapping [OF r2] did_main_wrapping [OF r1] r1 r2 by simp
qed

subsection \<open>DataCollatorCTCWithPadding\<close>

lemma map_exn_all_Inr:
  assumes "\<forall>x\<in>set xs. f x = Inr (g x)"
  shows "map_exn f xs = Inr (map g xs)"
  using assms by (induction xs) simp_all

lemma map_exn_first_Inl:
  assumes "\<exists>x\<in>set xs. f x = Inl e"
    and "\<forall>x\<in>set xs. f x = Inl e \<or> (\<exists>y. f x = Inr y)"
  shows "map_exn f xs = Inl e"
  using assms
proof (induction xs)
  case Nil
  then show ?case by simp
next
  case (Cons x xs)
  show ?case
  proof (cases "f x")
    case (Inl e')
    with Cons.prems(2) have "e' = e" by auto
    with Inl show ?thesis by simp
  next
    case (Inr y)
    with Cons.prems(1) have "\<exists>x\<in>set xs. f x = Inl e" by auto
    moreover from Cons.prems(2) have "\<forall>x\<in>set xs. f x = Inl e \<or> (\<exists>y. f x = Inr y)" by simp
    ultimately have "map_exn f xs = Inl e" by (rule Cons.IH)
    with Inr show ?thesis by simp
  qed
qed

lemma map_exn_Inr_all:
  assumes "map_exn f xs = Inr ys"
  shows "\<forall>x\<in>set xs. \<exists>y. f x = Inr y"
  using assms by (induction xs arbitrary: ys) (auto split: sum.splits)

lemma onehot_in_range:
  assumes "number_of_labels self = Some n" and "0 \<le> lbl" and "lbl < n"
  shows "onehot self lbl = Inr ((replicate (nat n) 0)[nat lbl := 1])"
  using assms by (simp add: onehot_def list_setitem_def)

lemma onehot_out_of_range:
  assumes "number_of_labels self = Some n" and "lbl \<ge> n \<or> lbl < - n"
  shows "onehot self lbl = Inl IndexError"
  using assms by (auto simp: onehot_def list_setitem_def Let_def)

lemma onehot_cases:
  assumes "number_of_labels self = Some n"
  shows "onehot self lbl = Inl IndexError \<or> (\<exists>y. onehot self lbl = Inr y)"
  using assms by (simp add: onehot_def list_setitem_def Let_def)

lemma fold_max_ge_init: "(a::nat) \<le> fold max xs a"
proof (induction xs arbitrary: a)
  case Nil
  show ?case by simp
next
  case (Cons x xs)
  have "a \<le> max x a" by simp
  also have "max x a \<le> fold max xs (max x a)" by (rule Cons.IH)
  finally show ?case by simp
qed

lemma fold_max_ge_elem: "x \<in> set xs \<Longrightarrow> (x::nat) \<le> fold max xs a"
proof (induction xs arbitrary: a)
  case Nil
  then show ?case by simp
next
  case (Cons y ys)
  show ?case
  proof (cases "x = y")
    case True
    have "x \<le> max y a" using True by simp
    also have "max y a \<le> fold max ys (max y a)" by (rule fold_max_ge_init)
    finally show ?thesis by simp
  next
    case False
    with Cons.prems have "x \<in> set ys" by simp
    then show ?thesis using Cons.IH by simp
  qed
qed

lemma length_le_longest:
  assumes "row \<in> set rows"
  shows "length row \<le> longest rows"
  using assms by (simp add: longest_def fold_max_ge_elem)

lemma round_up_ge:
  assumes "0 < m"
  shows "n \<le> round_up n m"
proof -
  have "n < (n div m + 1) * m"
    using assms by (metis Suc_eq_plus1 dividend_less_div_times mult.commute mult_Suc_right)
  then show ?thesis by (simp add: round_up_def)
qed

lemma length_pad_row:
  assumes "length row \<le> n"
  shows "length (pad_row n row) = n"
  using assms by (simp add: pad_row_def)

lemma pad_Inr:
  assumes "rows \<noteq> []" and "\<forall>m. multiple = Some m \<longrightarrow> 0 < m"
  shows "\<exists>n. pad rows max_len multiple = Inr (map (pad_row n) rows) \<and> (\<forall>row\<in>set rows. length row \<le> n)"
proof (cases multiple)
  case None
  with assms(1) show ?thesis
    by (auto simp: pad_def length_le_longest)
next
  case (Some m)
  with assms(2) have m: "0 < m" by simp
  then have "\<forall>row\<in>set rows. length row \<le> round_up (longest rows) (nat m)"
    by (meson length_le_longest round_up_ge le_trans zero_less_nat_eq)
  with Some m assms(1) show ?thesis
    by (auto simp: pad_def)
qed


lemma pad_not_IndexError: "pad rows max_len multiple \<noteq> Inl IndexError"
  by (simp add: pad_def split: option.splits)

text \<open>
  Claim C1. For a non-empty list of features whose labels lie in
  \<open>0 \<le> label < number_of_labels\<close>, \<open>__call__\<close> returns a batch: \<open>input_values\<close> has one
  row per feature, all rows of one length, each row beginning with the samples of its
  feature; \<open>labels\<close> has one row per feature, of length \<open>number_of_labels\<close>, with 1 at the
  index of the feature's label and 0 elsewhere. The multiple to pad to, when given, is
  positive.
\<close>

theorem collator_call_batch:
  assumes "features \<noteq> []"
    and "number_of_labels self = Some n"
    and "\<forall>f\<in>set features. 0 \<le> labels f \<and> labels f < n"
    and "\<forall>m. pad_to_multiple_of self = Some m \<longrightarrow> 0 < m"
  shows "\<exists>b len. DataCollatorCTCWithPadding_call self features = Inr b \<and>
      length (batch_input_values b) = length features \<and>
      (\<forall>row\<in>set (batch_input_values b). length row = len) \<and>
      (\<forall>i<length features.
         take (length (input_values (features ! i))) (batch_input_values b ! i)
           = input_values (features ! i)) \<and>
      length (batch_labels b) = length features \<and>
      (\<forall>i<length features.
         length (batch_labels b ! i) = nat n \<and>
         (\<forall>j<nat n. batch_labels b ! i ! j = (if int j = labels (features ! i) then 1 else 0)))"
proof -
  let ?hot = "\<lambda>f. (replicate (nat n) (0::int))[nat (labels f) := 1]"
  have "\<forall>f\<in>set features. onehot self (labels f) = Inr (?hot f)"
    using assms(2,3) by (simp add: onehot_in_range)
  then have hot: "map_exn (\<lambda>feature. onehot self (labels feature)) features = Inr (map ?hot features)"
    by (rule map_exn_all_Inr)
  from assms(1) have "map input_values features \<noteq> []" by simp
  from pad_Inr [OF this assms(4)] obtain len where
    p: "pad (map input_values features) (max_length self) (pad_to_multiple_of self)
          = Inr (map (pad_row len) (map input_values features))"
    and len: "\<forall>row\<in>set (map input_values features). length row \<le> len"
    by blast
  let ?b = "\<lparr>batch_input_values = map (pad_row len) (map input_values features),
             batch_labels = map ?hot features\<rparr>"
  have call: "DataCollatorCTCWithPadding_call self features = Inr ?b"
    by (simp add: DataCollatorCTCWithPadding_call_def hot p)
  have rows: "\<forall>row\<in>set (batch_input_values ?b). length row = len"
    using len by (auto simp: length_pad_row)
  have keep: "\<forall>i<length features.
         take (length (input_values (features ! i))) (batch_input_values ?b ! i)
           = input_values (features ! i)"
    by (simp add: pad_row_def)
  have lab: "\<forall>i<length features.
         length (batch_labels ?b ! i) = nat n \<and>
         (\<forall>j<nat n. batch_labels ?b ! i ! j = (if int j = labels (features ! i) then 1 else 0))"
  proof (intro allI impI conjI)
    fix i assume i: "i < length features"
    then show "length (batch_labels ?b ! i) = nat n" by simp
    fix j assume j: "j < nat n"
    from i assms(3) have l: "0 \<le> labels (features ! i)" "labels (features ! i) < n" by simp_all
    then have "(int j = labels (features ! i)) = (j = nat (labels (features ! i)))"
      by auto
    moreover from l have "nat (labels (features ! i)) < nat n" by simp
    ultimately show "batch_labels ?b ! i ! j = (if int j = labels (features ! i) then 1 else 0)"
      using i j by (simp add: nth_list_update)
  qed
  have "length (batch_input_values ?b) = length features"
    and "length (batch_labels ?b) = length features"
    by simp_all
  with call rows keep lab show ?thesis by blast
qed

lemma collator_example:
  "DataCollatorCTCWithPadding_call small_collator
     [\<lparr>input_values = [1, 2, 3, 4, 5], labels = 3\<rparr>, \<lparr>input_values = [7], labels = 0\<rparr>] =
   Inr \<lparr>batch_input_values = [[1, 2, 3, 4, 5, 0, 0, 0], [7, 0, 0, 0, 0, 0, 0, 0]],
        batch_labels = [[0, 0, 0, 1, 0], [1, 0, 0, 0, 0]]\<rparr>"
  by code_simp

theorem collator_call_batch_witness:
  "number_of_labels small_collator = Some 5 \<and>
   pad_to_multiple_of small_collator = Some 4 \<and>
   (\<exists>b. DataCollatorCTCWithPadding_call small_collator
        [\<lparr>input_values = [1, 2, 3, 4, 5], labels = 3\<rparr>, \<lparr>input_values = [7], labels = 0\<rparr>] = Inr b \<and>
      map length (batch_input_values b) = [8, 8] \<and>
      batch_labels b = [[0, 0, 0, 1, 0], [1, 0, 0, 0, 0]])"
proof -
  let ?fs = "[\<lparr>input_values = [1, 2, 3, 4, 5], labels = 3\<rparr>, \<lparr>input_values = [7::real], labels = 0\<rparr>]"
  have h1: "?fs \<noteq> []" by simp
  have h2: "number_of_labels small_collator = Some 5" by (simp add: small_collator_def)
  have h3: "\<forall>f\<in>set ?fs. 0 \<le> labels f \<and> labels f < 5" by simp
  have h4: "\<forall>m. pad_to_multiple_of small_collator = Some m \<longrightarrow> 0 < m"
    by (simp add: small_collator_def)
  have h5: "pad_to_multiple_of small_collator = Some 4" by (simp add: small_collator_def)
  from collator_call_batch [OF h1 h2 h3 h4] obtain b where
    b: "DataCollatorCTCWithPadding_call small_collator ?fs = Inr b"
    by blast
  then have "b = \<lparr>batch_input_values = [[1, 2, 3, 4, 5, 0, 0, 0], [7, 0, 0, 0, 0, 0, 0, 0]],
        batch_labels = [[0, 0, 0, 1, 0], [1, 0, 0, 0, 0]]\<rparr>"
    by (simp add: collator_example)
  then have "map length (batch_input_values b) = [8, 8]"
    and "batch_labels b = [[0, 0, 0, 1, 0], [1, 0, 0, 0, 0]]"
    by simp_all
  with b h2 h5 show ?thesis by simp
qed

text \<open>
  Claim C9. A feature whose label is at least \<open>number_of_labels\<close> or below
  \<open>- number_of_labels\<close> makes \<open>__call__\<close> raise IndexError; when every label lies in
  \<open>0 \<le> label < number_of_labels\<close>, \<open>onehot\<close> returns a row for every feature and
  \<open>__call__\<close> does not raise IndexError.
\<close>

theorem collator_call_index_error:
  assumes "number_of_labels self = Some n"
  shows "((\<exists>f\<in>set features. labels f \<ge> n \<or> labels f < - n) \<longrightarrow>
            DataCollatorCTCWithPadding_call self features = Inl IndexError) \<and>
         ((\<forall>f\<in>set features. 0 \<le> labels f \<and> labels f < n) \<longrightarrow>
            (\<forall>f\<in>set features. \<exists>row. onehot self (labels f) = Inr row) \<and>
            DataCollatorCTCWithPadding_call self features \<noteq> Inl IndexError)"
proof (intro conjI impI)
  assume "\<exists>f\<in>set features. labels f \<ge> n \<or> labels f < - n"
  then have "\<exists>f\<in>set features. onehot self (labels f) = Inl IndexError"
    using onehot_out_of_range [OF assms] by blast
  moreover have "\<forall>f\<in>set features. onehot self (labels f) = Inl IndexError \<or>
      (\<exists>y. onehot self (labels f) = Inr y)"
    using onehot_cases [OF assms] by blast
  ultimately have "map_exn (\<lambda>feature. onehot self (labels feature)) features = Inl IndexError"
    by (rule map_exn_first_Inl)
  then show "DataCollatorCTCWithPadding_call self features = Inl IndexError"
    by (simp add: DataCollatorCTCWithPadding_call_def)
next
  assume "\<forall>f\<in>set features. 0 \<le> labels f \<and> labels f < n"
  then have hot: "\<forall>f\<in>set features. onehot self (labels f) =
      Inr ((replicate (nat n) 0)[nat (labels f) := 1])"
    using assms by (simp add: onehot_in_range)
  then show "\<forall>f\<in>set features. \<exists>row. onehot self (labels f) = Inr row"
    by simp
  from hot have "map_exn (\<lambda>feature. onehot self (labels feature)) features =
      Inr (map (\<lambda>f. (replicate (nat n) 0)[nat (labels f) := 1]) features)"
    by (rule map_exn_all_Inr)
  then show "DataCollatorCTCWithPadding_call self features \<noteq> Inl IndexError"
    using pad_not_IndexError [of "map input_values features" "max_length self" "pad_to_multiple_of self"]
    by (auto simp: DataCollatorCTCWithPadding_call_def split: sum.splits)
qed

theorem collator_call_index_error_witness:
  "number_of_labels small_collator = Some 5 \<and>
   DataCollatorCTCWithPadding_call small_collator
     [\<lparr>input_values = [1], labels = 0\<rparr>, \<lparr>input_values = [7], labels = 5\<rparr>] = Inl IndexError \<and>
   DataCollatorCTCWithPadding_call small_collator
     [\<lparr>input_values = [1], labels = - 6\<rparr>] = Inl IndexError \<and>
   DataCollatorCTCWithPadding_call small_collator
     [\<lparr>input_values = [1], labels = 0\<rparr>, \<lparr>input_values = [7], labels = 4\<rparr>] \<noteq> Inl IndexError"
proof -
  have h: "number_of_labels small_collator = Some 5" by (simp add: small_collator_def)
  show ?thesis
    using h
      collator_call_index_error [OF h,
        of "[\<lparr>input_values = [1], labels = 0\<rparr>, \<lparr>input_values = [7], labels = 5\<rparr>]"]
      collator_call_index_error [OF h, of "[\<lparr>input_values = [1], labels = - 6\<rparr>]"]
      collator_call_index_error [OF h,
        of "[\<lparr>input_values = [1], labels = 0\<rparr>, \<lparr>input_values = [7], labels = 4\<rparr>]"]
    by simp
qed

subsection \<open>map\_to\_array\<close>

text \<open>
  \<open>sf.read\<close> never returns when its \<open>start\<close> is a string, so \<open>map_to_array\<close> raises on
  every batch.
\<close>

lemma sf_read_str_bound: "sf_read files name (PyStr a) stop \<noteq> Inr r"
  by (simp add: sf_read_def slice_bound_def split: option.splits prod.splits)

lemma map_to_array_raises: "\<exists>e. map_to_array files batch = Inl e"
  unfolding map_to_array_def
  by (auto simp: sf_read_str_bound split: sum.splits pyval.splits list.splits prod.splits)

text \<open>
  Claim C2 says that for a segment \<open>"<start>_<stop>"\<close> the batch comes back with the
  samples from \<open>start\<close> to \<open>stop\<close> under \<open>"speech"\<close>. The code passes the two strings of
  the split to \<open>sf.read\<close> without converting them to int: for the file \<open>a.wav\<close> of five
  samples and the segment \<open>"1_3"\<close> the call raises TypeError, where the claim expects
  the samples 2 and 3.
\<close>

theorem map_to_array_segment_type_error:
  "map_to_array [''a.wav'' \<mapsto> ([1, 2, 3, 4, 5], 16000)]
     [''file'' \<mapsto> PyStr ''a.wav'', ''segment'' \<mapsto> PyStr ''1_3''] = Inl TypeError"
  by (simp add: map_to_array_def getitem_def sf_read_def slice_bound_def)

subsection \<open>speech\_file\_to\_array\_fn\<close>

lemma endswith_mp3_not_wav:
  assumes "endswith name ''.mp3''"
  shows "\<not> endswith name ''.wav''"
  using assms by (auto simp: endswith_def)

lemma py_slice_from_zero:
  assumes "0 \<le> k"
  shows "py_slice xs (Some 0) (Some k) = take (nat k) xs"
    and "py_slice xs None (Some k) = take (nat k) xs"
  using assms by (simp_all add: py_slice_def clamp_index_def min_def Let_def)

text \<open>
  Claim C10. On a batch whose \<open>file\<close> entry is a string: for a name ending in \<open>.wav\<close>
  the samples read are the slice from 0 to \<open>window_length * 16000\<close> of the file's frames;
  for a name ending in \<open>.mp3\<close> they are the slice up to \<open>window_length * 16000\<close> of the
  first decoded channel; for a window length that is not negative both are the first
  \<open>window_length * 16000\<close> samples. For any other name the function raises
  UnboundLocalError and returns no batch.
\<close>

theorem speech_file_to_array_fn_by_suffix:
  assumes "batch ''file'' = Some (PyStr name)"
  shows
   "(endswith name ''.wav'' \<longrightarrow> sf_files libs name = Some (frames, rate) \<longrightarrow>
       batch ''label'' = Some lbl \<longrightarrow>
       speech_file_to_array_fn libs window_length batch =
         Inr (batch(''speech'' \<mapsto> PyArray (resample libs
                      (py_slice frames (Some 0) (Some (window_length * 16000))) rate 16000),
                    ''sampling_rate'' \<mapsto> PyInt 16000, ''parent'' \<mapsto> lbl)) \<and>
       (0 \<le> window_length \<longrightarrow>
          py_slice frames (Some 0) (Some (window_length * 16000))
            = take (nat (window_length * 16000)) frames)) \<and>
    (endswith name ''.mp3'' \<longrightarrow> torchaudio_files libs name = Some (channel # others, rate) \<longrightarrow>
       batch ''label'' = Some lbl \<longrightarrow>
       speech_file_to_array_fn libs window_length batch =
         Inr (batch(''speech'' \<mapsto> PyArray (resample libs
                      (py_slice channel None (Some (window_length * 16000))) rate 16000),
                    ''sampling_rate'' \<mapsto> PyInt 16000, ''parent'' \<mapsto> lbl)) \<and>
       (0 \<le> window_length \<longrightarrow>
          py_slice channel None (Some (window_length * 16000))
            = take (nat (window_length * 16000)) channel)) \<and>
    (\<not> endswith name ''.wav'' \<longrightarrow> \<not> endswith name ''.mp3'' \<longrightarrow>
       speech_file_to_array_fn libs window_length batch = Inl UnboundLocalError)"
proof (intro conjI impI)
  assume "endswith name ''.wav''" "sf_files libs name = Some (frames, rate)"
    "batch ''label'' = Some lbl"
  with assms show "speech_file_to_array_fn libs window_length batch =
         Inr (batch(''speech'' \<mapsto> PyArray (resample libs
                      (py_slice frames (Some 0) (Some (window_length * 16000))) rate 16000),
                    ''sampling_rate'' \<mapsto> PyInt 16000, ''parent'' \<mapsto> lbl))"
    by (simp add: speech_file_to_array_fn_def read_speech_def getitem_def sf_read_def
        slice_bound_def)
next
  assume "0 \<le> window_length"
  then show "py_slice frames (Some 0) (Some (window_length * 16000))
            = take (nat (window_length * 16000)) frames"
    by (simp add: py_slice_from_zero)
next
  assume m: "endswith name ''.mp3''" and "torchaudio_files libs name = Some (channel # others, rate)"
    "batch ''label'' = Some lbl"
  with assms endswith_mp3_not_wav [OF m]
  show "speech_file_to_array_fn libs window_length batch =
         Inr (batch(''speech'' \<mapsto> PyArray (resample libs
                      (py_slice channel None (Some (window_length * 16000))) rate 16000),
                    ''sampling_rate'' \<mapsto> PyInt 16000, ''parent'' \<mapsto> lbl))"
    by (simp add: speech_file_to_array_fn_def read_speech_def getitem_def torchaudio_load_def)
next
  assume "0 \<le> window_length"
  then show "py_slice channel None (Some (window_length * 16000))
            = take (nat (window_length * 16000)) channel"
    by (simp add: py_slice_from_zero)
next
  assume "\<not> endswith name ''.wav''" "\<not> endswith name ''.mp3''"
  with assms show "speech_file_to_array_fn libs window_length batch = Inl UnboundLocalError"
    by (simp add: speech_file_to_array_fn_def read_speech_def getitem_def)
qed


theorem speech_file_to_array_fn_by_suffix_witness:
  "speech_file_to_array_fn small_libs 1 [''file'' \<mapsto> PyStr ''a.wav'', ''label'' \<mapsto> PyInt 2] =
     Inr ([''file'' \<mapsto> PyStr ''a.wav'', ''label'' \<mapsto> PyInt 2]
            (''speech'' \<mapsto> PyArray (replicate 16000 1),
             ''sampling_rate'' \<mapsto> PyInt 16000, ''parent'' \<mapsto> PyInt 2)) \<and>
   speech_file_to_array_fn small_libs 1 [''file'' \<mapsto> PyStr ''b.mp3'', ''label'' \<mapsto> PyInt 2] =
     Inr ([''file'' \<mapsto> PyStr ''b.mp3'', ''label'' \<mapsto> PyInt 2]
            (''speech'' \<mapsto> PyArray (replicate 16000 4),
             ''sampling_rate'' \<mapsto> PyInt 16000, ''parent'' \<mapsto> PyInt 2)) \<and>
   speech_file_to_array_fn small_libs 1 [''file'' \<mapsto> PyStr ''c.flac'', ''label'' \<mapsto> PyInt 2] =
     Inl UnboundLocalError"
proof -
  have wav: "endswith ''a.wav'' ''.wav''" and mp3: "endswith ''b.mp3'' ''.mp3''"
    and other: "\<not> endswith ''c.flac'' ''.wav''" "\<not> endswith ''c.flac'' ''.mp3''"
    by (simp_all add: endswith_def)
  have sf: "sf_files small_libs ''a.wav'' = Some (replicate 16000 1 @ [2, 3], 16000)"
    and ta: "torchaudio_files small_libs ''b.mp3''
               = Some ((replicate 16000 4 @ [5]) # [replicate 16001 6], 44100)"
    and rs: "\<And>xs a b. resample small_libs xs a b = xs"
    by (simp_all add: small_libs_def)
  have 1: "speech_file_to_array_fn small_libs 1 [''file'' \<mapsto> PyStr ''a.wav'', ''label'' \<mapsto> PyInt 2] =
     Inr ([''file'' \<mapsto> PyStr ''a.wav'', ''label'' \<mapsto> PyInt 2]
            (''speech'' \<mapsto> PyArray (replicate 16000 1),
             ''sampling_rate'' \<mapsto> PyInt 16000, ''parent'' \<mapsto> PyInt 2))"
    using speech_file_to_array_fn_by_suffix
      [where batch = "[''file'' \<mapsto> PyStr ''a.wav'', ''label'' \<mapsto> PyInt 2]"
         and name = "''a.wav''" and libs = small_libs and window_length = 1
         and frames = "replicate 16000 1 @ [2, 3]" and rate = 16000 and lbl = "PyInt 2"]
      wav sf
    by (simp add: rs)
  have 2: "speech_file_to_array_fn small_libs 1 [''file'' \<mapsto> PyStr ''b.mp3'', ''label'' \<mapsto> PyInt 2] =
     Inr ([''file'' \<mapsto> PyStr ''b.mp3'', ''label'' \<mapsto> PyInt 2]
            (''speech'' \<mapsto> PyArray (replicate 16000 4),
             ''sampling_rate'' \<mapsto> PyInt 16000, ''parent'' \<mapsto> PyInt 2))"
    using speech_file_to_array_fn_by_suffix
      [where batch = "[''file'' \<mapsto> PyStr ''b.mp3'', ''label'' \<mapsto> PyInt 2]"
         and name = "''b.mp3''" and libs = small_libs and window_length = 1
         and channel = "replicate 16000 4 @ [5]" and others = "[replicate 16001 6]"
         and rate = 44100 and lbl = "PyInt 2"]
      mp3 ta
    by (simp add: rs)
  have 3: "speech_file_to_array_fn small_libs 1 [''file'' \<mapsto> PyStr ''c.flac'', ''label'' \<mapsto> PyInt 2] =
     Inl UnboundLocalError"
    using speech_file_to_array_fn_by_suffix
      [where batch = "[''file'' \<mapsto> PyStr ''c.flac'', ''label'' \<mapsto> PyInt 2]"
         and name = "''c.flac''" and libs = small_libs and window_length = 1]
      other
    by simp
  from 1 2 3 show ?thesis by simp
qed

subsection \<open>\_generate\_examples\<close>

text \<open>
  The pairs collected are those of the entries ending in \<open>.mp3\<close> among the first 4000
  of each immediate subdirectory. When there is at least one and the shuffle permutes
  them, the generator yields each of them once, under the keys \<open>"0"\<close>, \<open>"1"\<close>, ... in
  order.
\<close>

lemma collect_concat:
  "collect wav_dir listing =
     concat (map (\<lambda>(c, nd). case nd of File \<Rightarrow> [] | Dir entries \<Rightarrow> mp3_files wav_dir c entries)
               listing)"
  by (induction wav_dir listing rule: collect.induct) simp_all

lemma mem_collect:
  "(p, c) \<in> set (collect wav_dir listing) \<longleftrightarrow>
     (\<exists>entries fname. (c, Dir entries) \<in> set listing \<and> fname \<in> set (take 4000 entries) \<and>
        endswith fname ''.mp3'' \<and> p = wav_dir @ ''/'' @ c @ ''/'' @ fname)"
  by (induction wav_dir listing rule: collect.induct) (auto simp: mp3_files_def)

lemma generate_examples_nonempty:
  assumes perm: "mset (shuffle 4 (collect archive_path listing)) = mset (collect archive_path listing)"
    and ne: "collect archive_path listing \<noteq> []"
  shows "\<exists>out. generate_examples shuffle archive_path listing = Inr out \<and>
      map fst out = map str [0..<length out] \<and>
      mset (map snd out) =
        mset (map (\<lambda>(p, c). \<lparr>example_file = p, example_label = c\<rparr>) (collect archive_path listing))"
proof -
  let ?data = "shuffle 4 (collect archive_path listing)"
  let ?mk = "\<lambda>(p, c). \<lparr>example_file = p, example_label = c\<rparr>"
  let ?out = "map (\<lambda>i. (str i, \<lparr>example_file = fst (?data ! i), example_label = snd (?data ! i)\<rparr>))
                [0..<length ?data]"
  from perm ne have d: "?data \<noteq> []"
    by (metis mset_zero_iff)
  then have g: "generate_examples shuffle archive_path listing = Inr ?out"
    by (simp add: generate_examples_def Let_def)
  have keys: "map fst ?out = map str [0..<length ?out]"
    by (simp add: comp_def)
  have "map snd ?out = map (\<lambda>i. ?mk (?data ! i)) [0..<length ?data]"
    by (simp add: comp_def case_prod_beta)
  also have "\<dots> = map ?mk ?data"
    by (intro nth_equalityI) simp_all
  finally have "mset (map snd ?out) = mset (map ?mk ?data)"
    by simp
  also have "\<dots> = mset (map ?mk (collect archive_path listing))"
    using perm by (metis mset_map)
  finally show ?thesis using g keys by blast
qed

text \<open>
  Claim C3 says that for every directory tree the generator yields one example per
  \<open>.mp3\<close> entry, under the keys \<open>"0"\<close> to \<open>"n-1"\<close>. For a tree without such an entry it
  would yield nothing; the code raises ValueError there, when it unpacks \<open>zip(*data)\<close> of
  the empty list.
\<close>

theorem generate_examples_no_mp3:
  "generate_examples reversing_shuffle ''data''
     [(''NLD'', Dir [''notes.txt'']), (''ESP'', Dir []), (''README'', File)] = Inl ValueError"
  by (simp add: generate_examples_def mp3_files_def endswith_def reversing_shuffle_def)

lemma generate_examples_two_mp3:
  "generate_examples reversing_shuffle ''data''
     [(''NLD'', Dir [''a.mp3'', ''b.txt'']), (''README'', File), (''ESP'', Dir [''c.mp3''])] =
   Inr [(''0'', \<lparr>example_file = ''data/ESP/c.mp3'', example_label = ''ESP''\<rparr>),
        (''1'', \<lparr>example_file = ''data/NLD/a.mp3'', example_label = ''NLD''\<rparr>)]"
  by code_simp

text \<open>
  Claim C8. Two runs over the same listing yield the same examples in the same order,
  whatever state the module's own generator is in: the order is the one in which the
  generator created with seed 4 leaves the collected pairs.
\<close>

theorem generate_examples_deterministic:
  assumes "run_listing run1 = run_listing run2"
  shows "run_generate_examples new_rng rng_shuffle run1 archive_path =
           run_generate_examples new_rng rng_shuffle run2 archive_path \<and>
         (\<forall>out. run_generate_examples new_rng rng_shuffle run1 archive_path = Inr out \<longrightarrow>
            map snd out =
              map (\<lambda>(p, c). \<lparr>example_file = p, example_label = c\<rparr>)
                (fst (rng_shuffle (new_rng 4) (collect archive_path (run_listing run1)))))"
proof (intro conjI allI impI)
  show "run_generate_examples new_rng rng_shuffle run1 archive_path =
           run_generate_examples new_rng rng_shuffle run2 archive_path"
    using assms by (simp add: run_generate_examples_def)
next
  fix out
  let ?data = "fst (rng_shuffle (new_rng 4) (collect archive_path (run_listing run1)))"
  assume "run_generate_examples new_rng rng_shuffle run1 archive_path = Inr out"
  then have "out = map (\<lambda>i. (str i, \<lparr>example_file = fst (?data ! i), example_label = snd (?data ! i)\<rparr>))
                     [0..<length ?data]"
    by (simp add: run_generate_examples_def generate_examples_def Let_def split: if_splits)
  then have "map snd out = map (\<lambda>i. (\<lambda>(p, c). \<lparr>example_file = p, example_label = c\<rparr>) (?data ! i))
                     [0..<length ?data]"
    by (simp add: comp_def case_prod_beta)
  also have "\<dots> = map (\<lambda>(p, c). \<lparr>example_file = p, example_label = c\<rparr>) ?data"
    by (intro nth_equalityI) simp_all
  finally show "map snd out = map (\<lambda>(p, c). \<lparr>example_file = p, example_label = c\<rparr>) ?data" .
qed

lemma run_generate_examples_three_mp3:
  "run_generate_examples counter_rng rotating_shuffle
     \<lparr>run_listing = three_mp3_listing, run_global_rng = 1\<rparr> ''data'' =
   Inr [(''0'', \<lparr>example_file = ''data/NLD/d.mp3'', example_label = ''NLD''\<rparr>),
        (''1'', \<lparr>example_file = ''data/ESP/c.mp3'', example_label = ''ESP''\<rparr>),
        (''2'', \<lparr>example_file = ''data/NLD/a.mp3'', example_label = ''NLD''\<rparr>)]"
  by code_simp

theorem generate_examples_deterministic_witness:
  "run_generate_examples counter_rng rotating_shuffle
     \<lparr>run_listing = three_mp3_listing, run_global_rng = 1\<rparr> ''data'' =
   run_generate_examples counter_rng rotating_shuffle
     \<lparr>run_listing = three_mp3_listing, run_global_rng = 2\<rparr> ''data'' \<and>
   run_generate_examples counter_rng rotating_shuffle
     \<lparr>run_listing = three_mp3_listing, run_global_rng = 2\<rparr> ''data'' =
   Inr [(''0'', \<lparr>example_file = ''data/NLD/d.mp3'', example_label = ''NLD''\<rparr>),
        (''1'', \<lparr>example_file = ''data/ESP/c.mp3'', example_label = ''ESP''\<rparr>),
        (''2'', \<lparr>example_file = ''data/NLD/a.mp3'', example_label = ''NLD''\<rparr>)]"
proof -
  let ?run1 = "\<lparr>run_listing = three_mp3_listing, run_global_rng = 1::nat\<rparr>"
  let ?run2 = "\<lparr>run_listing = three_mp3_listing, run_global_rng = 2::nat\<rparr>"
  have same: "run_listing ?run1 = run_listing ?run2" by simp
  note d = generate_examples_deterministic
    [where ?run1.0 = ?run1 and ?run2.0 = ?run2 and new_rng = counter_rng
       and rng_shuffle = rotating_shuffle and archive_path = "''data''", OF same, THEN conjunct1]
  show ?thesis
    using d run_generate_examples_three_mp3 by simp
qed

end
